theory Spec2Isabelle
  imports Complex_Main "HOL-Library.Word"
begin

section \<open>Numbers and vectors\<close>

text \<open>
  The program computes in C \<^verbatim>\<open>float\<close>. The embedding reads every \<^verbatim>\<open>float\<close> as a
  real number and every operation as the exact one: it is the ideal-arithmetic reading
  of the program. Rounding, infinities and NaN are outside the model. A division whose
  divisor is zero gives an infinity or a NaN in the program and 0 in HOL; the properties
  below that go through a division by a mass or by a sum of masses assume the masses
  positive, as every particle of the program has them, so that no divisor is zero.

  \<^verbatim>\<open>Vector2\<close> and \<^verbatim>\<open>Color\<close> are raylib's structs, and the \<^verbatim>\<open>Vector2...\<close> functions are
  raymath's, written here as raymath defines them.
\<close>

record Vector2 =
  x :: real
  y :: real

datatype Color = Color "8 word" "8 word" "8 word" "8 word"

definition Vector2Add :: "Vector2 \<Rightarrow> Vector2 \<Rightarrow> Vector2" where
  "Vector2Add v1 v2 = \<lparr>x = x v1 + x v2, y = y v1 + y v2\<rparr>"

definition Vector2Subtract :: "Vector2 \<Rightarrow> Vector2 \<Rightarrow> Vector2" where
  "Vector2Subtract v1 v2 = \<lparr>x = x v1 - x v2, y = y v1 - y v2\<rparr>"

definition Vector2Scale :: "Vector2 \<Rightarrow> real \<Rightarrow> Vector2" where
  "Vector2Scale v scale = \<lparr>x = x v * scale, y = y v * scale\<rparr>"

definition Vector2Length :: "Vector2 \<Rightarrow> real" where
  "Vector2Length v = sqrt (x v * x v + y v * y v)"

definition Vector2DotProduct :: "Vector2 \<Rightarrow> Vector2 \<Rightarrow> real" where
  "Vector2DotProduct v1 v2 = x v1 * x v2 + y v1 * y v2"

definition Vector2Distance :: "Vector2 \<Rightarrow> Vector2 \<Rightarrow> real" where
  "Vector2Distance v1 v2 =
     sqrt ((x v1 - x v2) * (x v1 - x v2) + (y v1 - y v2) * (y v1 - y v2))"

text \<open>
  raymath's \<^verbatim>\<open>Vector2Normalize\<close> starts from the zero vector and scales by the inverse
  length only when the length is positive: the zero vector is returned unchanged.
\<close>

definition Vector2Normalize :: "Vector2 \<Rightarrow> Vector2" where
  "Vector2Normalize v =
     (let len = sqrt (x v * x v + y v * y v) in
      if len > 0
      then (let ilength = 1 / len in \<lparr>x = x v * ilength, y = y v * ilength\<rparr>)
      else \<lparr>x = 0, y = 0\<rparr>)"

section \<open>Compensated summation\<close>

text \<open>
  \<^verbatim>\<open>struct KahanVector2Sum\<close>: the fields \<^verbatim>\<open>sum\<close> and \<^verbatim>\<open>c\<close> (here \<open>sum_k\<close> and \<open>c_k\<close>), the
  constructor, \<^verbatim>\<open>Add\<close> and \<^verbatim>\<open>GetSum\<close>.
\<close>

record KahanVector2Sum =
  sum_k :: Vector2
  c_k :: Vector2

definition KahanVector2Sum_new :: KahanVector2Sum where
  "KahanVector2Sum_new = \<lparr>sum_k = \<lparr>x = 0, y = 0\<rparr>, c_k = \<lparr>x = 0, y = 0\<rparr>\<rparr>"

definition Add :: "KahanVector2Sum \<Rightarrow> Vector2 \<Rightarrow> KahanVector2Sum" where
  "Add k val =
     (let yv = Vector2Subtract val (c_k k);
          t = Vector2Add (sum_k k) yv;
          k1 = k\<lparr>c_k := Vector2Subtract (Vector2Subtract t (sum_k k)) yv\<rparr>
      in k1\<lparr>sum_k := t\<rparr>)"

definition GetSum :: "KahanVector2Sum \<Rightarrow> Vector2" where
  "GetSum k = sum_k k"

text \<open>Adding a sequence of terms one at a time, in order, to a fresh accumulator.\<close>

definition kahan_total :: "Vector2 list \<Rightarrow> Vector2" where
  "kahan_total vs = GetSum (foldl Add KahanVector2Sum_new vs)"

section \<open>Particles and gravity\<close>

record Ball =
  position :: Vector2
  velocity :: Vector2
  acceleration :: Vector2
  radius :: real
  mass :: real
  color :: Color

definition minDistanceThreshold :: real where
  "minDistanceThreshold = 10"

definition G :: real where
  "G = 1000"

text \<open>
  \<^verbatim>\<open>calculateGravitationalForce\<close>. Its local \<^verbatim>\<open>distance\<close> is named \<open>softened_distance\<close>
  so that the divisor \<^verbatim>\<open>distance * distance\<close> of the force magnitude can be spoken about.
\<close>

definition softened_distance :: "Ball \<Rightarrow> Ball \<Rightarrow> real" where
  "softened_distance source target =
     Vector2Length (Vector2Subtract (position target) (position source)) + minDistanceThreshold"

definition force_divisor :: "Ball \<Rightarrow> Ball \<Rightarrow> real" where
  "force_divisor source target = softened_distance source target * softened_distance source target"

definition calculateGravitationalForce :: "Ball \<Rightarrow> Ball \<Rightarrow> Vector2" where
  "calculateGravitationalForce source target =
     (let direction = Vector2Subtract (position target) (position source);
          direction1 = Vector2Normalize direction;
          forceMagnitude = (G * mass source * mass target) / force_divisor source target
      in Vector2Scale direction1 forceMagnitude)"

section \<open>Collisions\<close>

definition checkBallCollision :: "Ball \<Rightarrow> Ball \<Rightarrow> bool" where
  "checkBallCollision ball1 ball2 =
     (let distance = Vector2Distance (position ball1) (position ball2)
      in distance < radius ball1 + radius ball2)"

text \<open>
  \<^verbatim>\<open>resolveBallCollision\<close> takes two references and writes through them; the model
  returns the two particles as they are after the call. Its first three locals are
  computed from the particles as they are passed in; \<open>collision_normal\<close> and
  \<open>relative_speed\<close> name \<^verbatim>\<open>normal\<close> and \<^verbatim>\<open>relativeSpeed\<close>. The first \<^verbatim>\<open>if\<close> of the body is
  \<open>positional_correction\<close>, the second is \<open>impulse_response\<close>.
\<close>

definition collision_normal :: "Ball \<Rightarrow> Ball \<Rightarrow> Vector2" where
  "collision_normal ball1 ball2 =
     Vector2Normalize (Vector2Subtract (position ball2) (position ball1))"

definition relative_speed :: "Ball \<Rightarrow> Ball \<Rightarrow> real" where
  "relative_speed ball1 ball2 =
     (let relativeVelocity = Vector2Subtract (velocity ball2) (velocity ball1)
      in Vector2DotProduct relativeVelocity (collision_normal ball1 ball2))"

definition positional_correction :: "Ball \<Rightarrow> Ball \<Rightarrow> Ball \<times> Ball" where
  "positional_correction ball1 ball2 =
     (if Vector2Distance (position ball1) (position ball2) < radius ball1 + radius ball2
      then (let direction = Vector2Subtract (position ball2) (position ball1);
                distance = Vector2Length direction;
                overlap = (radius ball1 + radius ball2) - distance;
                direction1 = Vector2Normalize direction;
                totalMass = mass ball1 + mass ball2;
                ratio1 = mass ball2 / totalMass;
                ratio2 = mass ball1 / totalMass
            in (ball1\<lparr>position := Vector2Subtract (position ball1)
                                     (Vector2Scale direction1 (overlap * ratio1))\<rparr>,
                ball2\<lparr>position := Vector2Add (position ball2)
                                     (Vector2Scale direction1 (overlap * ratio2))\<rparr>))
      else (ball1, ball2))"

definition impulse_response :: "Vector2 \<Rightarrow> real \<Rightarrow> Ball \<Rightarrow> Ball \<Rightarrow> Ball \<times> Ball" where
  "impulse_response normal relativeSpeed ball1 ball2 =
     (if relativeSpeed < 0
      then (let impulse = (2 * relativeSpeed) / (mass ball1 + mass ball2)
            in (ball1\<lparr>velocity := Vector2Add (velocity ball1)
                                     (Vector2Scale normal (impulse * mass ball2))\<rparr>,
                ball2\<lparr>velocity := Vector2Subtract (velocity ball2)
                                     (Vector2Scale normal (impulse * mass ball1))\<rparr>))
      else (ball1, ball2))"

definition resolveBallCollision :: "Ball \<Rightarrow> Ball \<Rightarrow> Ball \<times> Ball" where
  "resolveBallCollision ball1 ball2 =
     (let normal = collision_normal ball1 ball2;
          relativeSpeed = relative_speed ball1 ball2;
          corrected = positional_correction ball1 ball2
      in impulse_response normal relativeSpeed (fst corrected) (snd corrected))"

text \<open>The total momentum \<open>m1 * v1 + m2 * v2\<close> of two particles, and their overlap.\<close>

definition total_momentum :: "Ball \<Rightarrow> Ball \<Rightarrow> Vector2" where
  "total_momentum ball1 ball2 =
     Vector2Add (Vector2Scale (velocity ball1) (mass ball1))
                (Vector2Scale (velocity ball2) (mass ball2))"

definition overlap_of :: "Ball \<Rightarrow> Ball \<Rightarrow> real" where
  "overlap_of ball1 ball2 =
     (radius ball1 + radius ball2)
       - Vector2Length (Vector2Subtract (position ball2) (position ball1))"

section \<open>The frame's update loop\<close>

definition screenWidth :: int where
  "screenWidth = 1600"

definition screenHeight :: int where
  "screenHeight = 900"

text \<open>
  The range-for over \<^verbatim>\<open>balls\<close> that accumulates the acceleration of \<^verbatim>\<open>ball\<close>, which is
  \<^verbatim>\<open>balls[i]\<close>. The loop visits the elements in order; \<open>j\<close> counts them. The test
  \<^verbatim>\<open>&ball != &otherBall\<close> compares addresses of elements of the one vector, so it is
  the test \<open>j \<noteq> i\<close> on their indices.
\<close>

fun accumulate :: "Ball \<Rightarrow> nat \<Rightarrow> nat \<Rightarrow> Ball list \<Rightarrow> KahanVector2Sum \<Rightarrow> KahanVector2Sum" where
  "accumulate ball i j [] k = k"
| "accumulate ball i j (otherBall # rest) k =
     accumulate ball i (Suc j) rest
       (if j \<noteq> i
        then (let force = calculateGravitationalForce ball otherBall
              in Add k (Vector2Scale force (1 / mass ball)))
        else k)"

text \<open>
  The body of \<^verbatim>\<open>if (!isDragging)\<close> for the particle at index \<open>i\<close>: the acceleration is
  set to zero in place, accumulated and stored; then the velocity and the position are
  advanced, each through an accumulator of its own. The result is the particle as it
  is after the block.
\<close>

definition integrate_ball :: "real \<Rightarrow> nat \<Rightarrow> Ball list \<Rightarrow> Ball" where
  "integrate_ball deltaTime i balls =
     (let balls1 = balls[i := (balls ! i)\<lparr>acceleration := \<lparr>x = 0, y = 0\<rparr>\<rparr>];
          ball = balls1 ! i;
          kahanAccelerationSum = accumulate ball i 0 balls1 KahanVector2Sum_new;
          ball1 = ball\<lparr>acceleration := GetSum kahanAccelerationSum\<rparr>;
          kahanVelocitySum =
            Add (Add KahanVector2Sum_new (velocity ball1))
                (Vector2Scale (acceleration ball1) deltaTime);
          ball2 = ball1\<lparr>velocity := GetSum kahanVelocitySum\<rparr>;
          kahanPositionSum =
            Add (Add KahanVector2Sum_new (position ball2))
                (Vector2Scale (velocity ball2) deltaTime)
      in ball2\<lparr>position := GetSum kahanPositionSum\<rparr>)"

text \<open>The four tests under \<^verbatim>\<open>// BOUNDS\<close>, in the source's order.\<close>

definition bounds :: "Ball \<Rightarrow> Ball" where
  "bounds ball =
     (let b1 = (if y (position ball) > real_of_int screenHeight + radius ball
                then ball\<lparr>position := (position ball)\<lparr>y := - radius ball\<rparr>\<rparr> else ball);
          b2 = (if y (position b1) < - radius b1
                then b1\<lparr>position := (position b1)\<lparr>y := real_of_int screenHeight + radius b1\<rparr>\<rparr>
                else b1);
          b3 = (if x (position b2) > real_of_int screenWidth + radius b2
                then b2\<lparr>position := (position b2)\<lparr>x := - radius b2\<rparr>\<rparr> else b2)
      in (if x (position b3) < - radius b3
          then b3\<lparr>position := (position b3)\<lparr>x := real_of_int screenWidth + radius b3\<rparr>\<rparr>
          else b3))"

text \<open>
  One iteration of the \<^verbatim>\<open>for\<close> loop over the particles, and the loop. \<^verbatim>\<open>isDragging\<close> is
  the one flag of \<^verbatim>\<open>main\<close>; the loop does not read \<^verbatim>\<open>draggedBallIndex\<close>. The loop runs
  under \<^verbatim>\<open>#pragma omp parallel for num_threads(2)\<close>; the model runs its iterations in
  index order, each writing its particle back before the next one starts.
\<close>

definition update_ball :: "bool \<Rightarrow> real \<Rightarrow> nat \<Rightarrow> Ball list \<Rightarrow> Ball" where
  "update_ball isDragging deltaTime i balls =
     bounds (if \<not> isDragging then integrate_ball deltaTime i balls else balls ! i)"

function update_balls :: "bool \<Rightarrow> real \<Rightarrow> nat \<Rightarrow> Ball list \<Rightarrow> Ball list" where
  "update_balls isDragging deltaTime i balls =
     (if i < length balls
      then update_balls isDragging deltaTime (Suc i)
             (balls[i := update_ball isDragging deltaTime i balls])
      else balls)"
  by pat_completeness auto
termination
  by (relation "measure (\<lambda>(isDragging, deltaTime, i, balls). length balls - i)") auto

declare update_balls.simps [simp del]

section \<open>The collision passes\<close>

text \<open>
  \<^verbatim>\<open>resolveBallCollision(balls[i], balls[j])\<close> writes both particles back into the vector.
\<close>

definition resolve_at :: "nat \<Rightarrow> nat \<Rightarrow> Ball list \<Rightarrow> Ball list" where
  "resolve_at i j balls =
     (let r = resolveBallCollision (balls ! i) (balls ! j)
      in (balls[i := fst r])[j := snd r])"

text \<open>The three nested loops of \<^verbatim>\<open>handleCollisions\<close>, innermost first.\<close>

function handleCollisions_j :: "nat \<Rightarrow> nat \<Rightarrow> Ball list \<Rightarrow> Ball list" where
  "handleCollisions_j i j balls =
     (if j < length balls
      then handleCollisions_j i (Suc j)
             (if checkBallCollision (balls ! i) (balls ! j) then resolve_at i j balls else balls)
      else balls)"
  by pat_completeness auto
termination
  by (relation "measure (\<lambda>(i, j, balls). length balls - j)") (auto simp: resolve_at_def Let_def)

declare handleCollisions_j.simps [simp del]

lemma length_resolve_at: "length (resolve_at i j balls) = length balls"
  by (simp add: resolve_at_def Let_def)

lemma length_handleCollisions_j: "length (handleCollisions_j i j balls) = length balls"
proof (induction i j balls rule: handleCollisions_j.induct)
  case (1 i j balls)
  show ?case
  proof (cases "j < length balls")
    case True
    have "length (handleCollisions_j i j balls) =
            length (handleCollisions_j i (Suc j)
              (if checkBallCollision (balls ! i) (balls ! j) then resolve_at i j balls else balls))"
      using True by (subst handleCollisions_j.simps) simp
    also have "\<dots> =
            length (if checkBallCollision (balls ! i) (balls ! j) then resolve_at i j balls else balls)"
      using True by (rule "1.IH")
    also have "\<dots> = length balls"
      by (simp add: length_resolve_at)
    finally show ?thesis .
  next
    case False
    then show ?thesis
      by (subst handleCollisions_j.simps) simp
  qed
qed

function handleCollisions_i :: "nat \<Rightarrow> Ball list \<Rightarrow> Ball list" where
  "handleCollisions_i i balls =
     (if i < length balls
      then handleCollisions_i (Suc i) (handleCollisions_j i (Suc i) balls)
      else balls)"
  by pat_completeness auto
termination
  by (relation "measure (\<lambda>(i, balls). length balls - i)")
    (auto simp: length_handleCollisions_j)

declare handleCollisions_i.simps [simp del]

definition maxIterations :: nat where
  "maxIterations = 10"

function handleCollisions_iteration :: "nat \<Rightarrow> Ball list \<Rightarrow> Ball list" where
  "handleCollisions_iteration iteration balls =
     (if iteration < maxIterations
      then handleCollisions_iteration (Suc iteration) (handleCollisions_i 0 balls)
      else balls)"
  by pat_completeness auto
termination
  by (relation "measure (\<lambda>(iteration, balls). maxIterations - iteration)") auto

declare handleCollisions_iteration.simps [simp del]

definition handleCollisions :: "Ball list \<Rightarrow> Ball list" where
  "handleCollisions balls = handleCollisions_iteration 0 balls"

text \<open>
  The pairs of indices below \<open>n\<close> with \<open>i < j\<close>, in index order; what one pass does at
  one pair; and one pass over all the pairs.
\<close>

definition index_pairs :: "nat \<Rightarrow> (nat \<times> nat) list" where
  "index_pairs n = concat (map (\<lambda>i. map (Pair i) [Suc i..<n]) [0..<n])"

definition collide_step :: "nat \<times> nat \<Rightarrow> Ball list \<Rightarrow> Ball list" where
  "collide_step p balls =
     (if checkBallCollision (balls ! fst p) (balls ! snd p)
      then resolve_at (fst p) (snd p) balls else balls)"

definition collision_pass :: "Ball list \<Rightarrow> Ball list" where
  "collision_pass balls = fold collide_step (index_pairs (length balls)) balls"

text \<open>
  The pairs from row \<open>i\<close> on, and the order in which the two inner loops meet the pairs:
  by first index, then by second.
\<close>

definition pairs_from :: "nat \<Rightarrow> nat \<Rightarrow> (nat \<times> nat) list" where
  "pairs_from i n = concat (map (\<lambda>i. map (Pair i) [Suc i..<n]) [i..<n])"

definition pair_before :: "nat \<times> nat \<Rightarrow> nat \<times> nat \<Rightarrow> bool" where
  "pair_before p q = (fst p < fst q \<or> (fst p = fst q \<and> snd p < snd q))"

section \<open>Concrete particles\<close>

text \<open>
  A particle on the horizontal axis, of radius 5 as every particle \<^verbatim>\<open>main\<close> creates, for
  evaluating the definitions at concrete inputs.
\<close>

definition example_ball :: "real \<Rightarrow> real \<Rightarrow> real \<Rightarrow> Ball" where
  "example_ball px vx m =
     \<lparr>position = \<lparr>x = px, y = 0\<rparr>, velocity = \<lparr>x = vx, y = 0\<rparr>,
      acceleration = \<lparr>x = 0, y = 0\<rparr>, radius = 5, mass = m, color = Color 0 0 0 255\<rparr>"

section \<open>Vectors and the accumulator\<close>

lemma Vector2_eqI: "x v = x w \<Longrightarrow> y v = y w \<Longrightarrow> v = (w :: Vector2)"
  by simp

lemma Vector2Length_nonneg: "0 \<le> Vector2Length v"
  by (simp add: Vector2Length_def)

lemma sqrt_scaled: "sqrt ((a * k) * (a * k) + (b * k) * (b * k)) = \<bar>k\<bar> * sqrt (a * a + b * b)"
proof -
  have "(a * k) * (a * k) + (b * k) * (b * k) = (k * k) * (a * a + b * b)"
    by (simp add: algebra_simps)
  then show ?thesis
    by (simp add: real_sqrt_mult)
qed

lemma Vector2Distance_Length:
  "Vector2Distance v1 v2 = Vector2Length (Vector2Subtract v2 v1)"
  by (simp add: Vector2Distance_def Vector2Length_def Vector2Subtract_def algebra_simps)

lemma Vector2Length_pos_iff: "0 < Vector2Length v \<longleftrightarrow> v \<noteq> \<lparr>x = 0, y = 0\<rparr>"
proof -
  have "x v * x v + y v * y v = 0 \<longleftrightarrow> x v = 0 \<and> y v = 0"
    by (rule sum_squares_eq_zero_iff)
  moreover have "0 \<le> x v * x v + y v * y v" by simp
  ultimately have "0 < x v * x v + y v * y v \<longleftrightarrow> \<not> (x v = 0 \<and> y v = 0)"
    by (metis less_le)
  moreover have "v = \<lparr>x = 0, y = 0\<rparr> \<longleftrightarrow> x v = 0 \<and> y v = 0"
    by (cases v) simp
  ultimately show ?thesis
    unfolding Vector2Length_def real_sqrt_gt_0_iff by blast
qed

lemma Vector2Normalize_scale:
  assumes "0 < Vector2Length v"
  shows "Vector2Normalize v = Vector2Scale v (1 / Vector2Length v)"
proof -
  define L where "L = sqrt (x v * x v + y v * y v)"
  have L: "0 < L" using assms by (simp add: Vector2Length_def L_def)
  have "Vector2Normalize v = (if 0 < L then \<lparr>x = x v * (1 / L), y = y v * (1 / L)\<rparr> else \<lparr>x = 0, y = 0\<rparr>)"
    unfolding Vector2Normalize_def Let_def L_def by (rule refl)
  with L show ?thesis
    by (simp add: Vector2Scale_def Vector2Length_def L_def)
qed

lemma Vector2Normalize_zero:
  "\<not> 0 < Vector2Length v \<Longrightarrow> Vector2Normalize v = \<lparr>x = 0, y = 0\<rparr>"
  unfolding Vector2Normalize_def Vector2Length_def Let_def by (simp only: if_False)

lemma Vector2Length_scale: "Vector2Length (Vector2Scale v k) = \<bar>k\<bar> * Vector2Length v"
  unfolding Vector2Length_def Vector2Scale_def by (simp add: sqrt_scaled)

lemma Vector2Normalize_unit:
  assumes "0 < Vector2Length v"
  shows "Vector2Length (Vector2Normalize v) = 1"
  using assms by (simp add: Vector2Normalize_scale Vector2Length_scale)

lemma Vector2Length_axis: "Vector2Length \<lparr>x = a, y = 0\<rparr> = \<bar>a\<bar>"
  by (simp add: Vector2Length_def)

lemma unit_dot_self:
  assumes "Vector2Length v = 1"
  shows "x v * x v + y v * y v = 1"
  using assms by (simp add: Vector2Length_def)

lemma distinct_centres_length:
  assumes "position ball1 \<noteq> position ball2"
  shows "0 < Vector2Length (Vector2Subtract (position ball2) (position ball1))"
proof -
  have "Vector2Subtract (position ball2) (position ball1) \<noteq> \<lparr>x = 0, y = 0\<rparr>"
  proof
    assume "Vector2Subtract (position ball2) (position ball1) = \<lparr>x = 0, y = 0\<rparr>"
    then have "x (position ball2) = x (position ball1) \<and> y (position ball2) = y (position ball1)"
      by (simp add: Vector2Subtract_def)
    then have "position ball1 = position ball2" by simp
    with assms show False by simp
  qed
  then show ?thesis by (simp add: Vector2Length_pos_iff)
qed

lemma sqrt_36: "sqrt 36 = 6"
  using real_sqrt_abs [of 6] by simp

lemma Add_exact:
  "c_k k = \<lparr>x = 0, y = 0\<rparr> \<Longrightarrow>
   c_k (Add k v) = \<lparr>x = 0, y = 0\<rparr> \<and> sum_k (Add k v) = Vector2Add (sum_k k) v"
  by (simp add: Add_def Let_def Vector2Add_def Vector2Subtract_def)

lemma foldl_Add_exact:
  "c_k k = \<lparr>x = 0, y = 0\<rparr> \<Longrightarrow>
   c_k (foldl Add k vs) = \<lparr>x = 0, y = 0\<rparr> \<and>
   x (sum_k (foldl Add k vs)) = x (sum_k k) + (\<Sum>v\<leftarrow>vs. x v) \<and>
   y (sum_k (foldl Add k vs)) = y (sum_k k) + (\<Sum>v\<leftarrow>vs. y v)"
proof (induction vs arbitrary: k)
  case Nil
  then show ?case by simp
next
  case (Cons v vs)
  have step: "c_k (Add k v) = \<lparr>x = 0, y = 0\<rparr>" "sum_k (Add k v) = Vector2Add (sum_k k) v"
    using Add_exact [OF Cons.prems] by simp_all
  show ?case
    using Cons.IH [OF step(1)] by (simp add: step(2) Vector2Add_def)
qed

lemma kahan_total_exact:
  "x (kahan_total vs) = (\<Sum>v\<leftarrow>vs. x v) \<and> y (kahan_total vs) = (\<Sum>v\<leftarrow>vs. y v)"
  using foldl_Add_exact [of KahanVector2Sum_new vs]
  by (simp add: kahan_total_def GetSum_def KahanVector2Sum_new_def)

lemma kahan_total_map_sum:
  assumes "distinct js"
  shows "x (kahan_total (map f js)) = (\<Sum>j\<in>set js. x (f j))"
    and "y (kahan_total (map f js)) = (\<Sum>j\<in>set js. y (f j))"
  using assms kahan_total_exact [of "map f js"]
  by (simp_all add: comp_def sum_list_distinct_conv_sum_set)

section \<open>Gravity and the update loop\<close>

lemma force_ignores_acceleration:
  "calculateGravitationalForce (source\<lparr>acceleration := a\<rparr>) target
     = calculateGravitationalForce source target"
  by (simp add: calculateGravitationalForce_def force_divisor_def softened_distance_def)

lemma force_formula:
  "calculateGravitationalForce source target =
     Vector2Scale (Vector2Normalize (Vector2Subtract (position target) (position source)))
       (1000 * mass source * mass target
          / (Vector2Length (Vector2Subtract (position target) (position source)) + 10)\<^sup>2)"
  by (simp add: calculateGravitationalForce_def force_divisor_def softened_distance_def
      minDistanceThreshold_def G_def power2_eq_square)

lemma force_magnitude:
  assumes "position source \<noteq> position target"
  shows "Vector2Length (calculateGravitationalForce source target) =
           \<bar>1000 * mass source * mass target\<bar>
             / (Vector2Length (Vector2Subtract (position target) (position source)) + 10)\<^sup>2"
  using Vector2Normalize_unit [OF distinct_centres_length [OF assms]]
  by (simp add: force_formula Vector2Length_scale)

lemma accumulate_from:
  "j \<le> length balls \<Longrightarrow>
   accumulate ball i j (drop j balls) k =
     foldl Add k
       (map (\<lambda>jj. Vector2Scale (calculateGravitationalForce ball (balls ! jj)) (1 / mass ball))
            (filter (\<lambda>jj. jj \<noteq> i) [j..<length balls]))"
proof (induction "length balls - j" arbitrary: j k)
  case 0
  then show ?case by simp
next
  case (Suc n)
  then have j: "j < length balls" and n: "n = length balls - Suc j" by simp_all
  have d: "drop j balls = balls ! j # drop (Suc j) balls"
    using j by (simp add: Cons_nth_drop_Suc)
  have u: "[j..<length balls] = j # [Suc j..<length balls]"
    using j by (simp add: upt_conv_Cons)
  define k1 where "k1 = (if j \<noteq> i
      then Add k (Vector2Scale (calculateGravitationalForce ball (balls ! j)) (1 / mass ball))
      else k)"
  have "accumulate ball i j (drop j balls) k = accumulate ball i (Suc j) (drop (Suc j) balls) k1"
    unfolding d by (simp add: k1_def Let_def)
  also have "\<dots> = foldl Add k1
       (map (\<lambda>jj. Vector2Scale (calculateGravitationalForce ball (balls ! jj)) (1 / mass ball))
            (filter (\<lambda>jj. jj \<noteq> i) [Suc j..<length balls]))"
    using n j by (intro Suc.hyps(1)) simp_all
  also have "\<dots> = foldl Add k
       (map (\<lambda>jj. Vector2Scale (calculateGravitationalForce ball (balls ! jj)) (1 / mass ball))
            (filter (\<lambda>jj. jj \<noteq> i) [j..<length balls]))"
    unfolding u by (simp add: k1_def)
  finally show ?case .
qed

lemma accumulate_all:
  "accumulate ball i 0 balls k =
     foldl Add k
       (map (\<lambda>j. Vector2Scale (calculateGravitationalForce ball (balls ! j)) (1 / mass ball))
            (filter (\<lambda>j. j \<noteq> i) [0..<length balls]))"
  using accumulate_from [of 0 balls ball i k] by simp

lemma integrate_ball_acceleration:
  assumes i: "i < length balls"
  shows "acceleration (integrate_ball deltaTime i balls) =
           kahan_total
             (map (\<lambda>j. Vector2Scale (calculateGravitationalForce (balls ! i) (balls ! j))
                                      (1 / mass (balls ! i)))
                  (filter (\<lambda>j. j \<noteq> i) [0..<length balls]))"
proof -
  define balls1 where "balls1 = balls[i := (balls ! i)\<lparr>acceleration := \<lparr>x = 0, y = 0\<rparr>\<rparr>]"
  define ball where "ball = balls1 ! i"
  have ball: "ball = (balls ! i)\<lparr>acceleration := \<lparr>x = 0, y = 0\<rparr>\<rparr>"
    using i by (simp add: ball_def balls1_def)
  have len: "length balls1 = length balls" by (simp add: balls1_def)
  have "acceleration (integrate_ball deltaTime i balls) =
          GetSum (accumulate ball i 0 balls1 KahanVector2Sum_new)"
    by (simp add: integrate_ball_def Let_def balls1_def ball_def)
  also have "\<dots> = kahan_total
             (map (\<lambda>j. Vector2Scale (calculateGravitationalForce ball (balls1 ! j)) (1 / mass ball))
                  (filter (\<lambda>j. j \<noteq> i) [0..<length balls]))"
    by (simp add: accumulate_all kahan_total_def len)
  also have "map (\<lambda>j. Vector2Scale (calculateGravitationalForce ball (balls1 ! j)) (1 / mass ball))
                  (filter (\<lambda>j. j \<noteq> i) [0..<length balls])
           = map (\<lambda>j. Vector2Scale (calculateGravitationalForce (balls ! i) (balls ! j))
                                      (1 / mass (balls ! i)))
                  (filter (\<lambda>j. j \<noteq> i) [0..<length balls])"
    by (rule map_cong) (simp_all add: ball force_ignores_acceleration balls1_def)
  finally show ?thesis .
qed

lemma others_set: "set (filter (\<lambda>j. j \<noteq> i) [0..<n]) = {0..<n} - {i}"
  by auto

lemma bounds_keeps:
  "velocity (bounds ball) = velocity ball"
  "acceleration (bounds ball) = acceleration ball"
  "radius (bounds ball) = radius ball"
  "mass (bounds ball) = mass ball"
  "color (bounds ball) = color ball"
  by (simp_all add: bounds_def Let_def)

lemma bounds_x:
  "x (position (bounds ball)) =
     (if x (position ball) > real_of_int screenWidth + radius ball then - radius ball
      else if x (position ball) < - radius ball then real_of_int screenWidth + radius ball
      else x (position ball))"
  by (simp add: bounds_def Let_def)

lemma bounds_y:
  "y (position (bounds ball)) =
     (if y (position ball) > real_of_int screenHeight + radius ball
      then - radius ball
      else if y (position ball) < - radius ball then real_of_int screenHeight + radius ball
      else y (position ball))"
  by (simp add: bounds_def Let_def)

lemma update_balls_dragging_from:
  "isDragging \<Longrightarrow> i \<le> length balls \<Longrightarrow>
   update_balls isDragging deltaTime i balls = take i balls @ map bounds (drop i balls)"
proof (induction isDragging deltaTime i balls rule: update_balls.induct)
  case (1 isDragging deltaTime i balls)
  show ?case
  proof (cases "i < length balls")
    case True
    have "update_balls isDragging deltaTime i balls =
            update_balls isDragging deltaTime (Suc i) (balls[i := bounds (balls ! i)])"
      using True "1.prems"(1) by (subst update_balls.simps) (simp add: update_ball_def)
    also have "\<dots> = take (Suc i) (balls[i := bounds (balls ! i)])
                     @ map bounds (drop (Suc i) (balls[i := bounds (balls ! i)]))"
      using True "1.IH" "1.prems"(1) by (simp add: update_ball_def)
    also have "\<dots> = take i balls @ map bounds (drop i balls)"
      using True by (simp add: take_Suc_conv_app_nth Cons_nth_drop_Suc [symmetric])
    finally show ?thesis .
  next
    case False
    with "1.prems" show ?thesis
      by (subst update_balls.simps) simp
  qed
qed

lemma update_balls_dragging: "update_balls True deltaTime 0 balls = map bounds balls"
  by (simp add: update_balls_dragging_from)

lemma example_force:
  "calculateGravitationalForce (example_ball 6 0 15) (example_ball 0 0 5) = \<lparr>x = - (9375 / 32), y = 0\<rparr>"
  by (simp add: calculateGravitationalForce_def force_divisor_def softened_distance_def
      minDistanceThreshold_def G_def Vector2Subtract_def Vector2Length_def Vector2Normalize_def
      Vector2Scale_def example_ball_def sqrt_36)

lemma example_integrate:
  "acceleration (integrate_ball 1 (Suc 0) [example_ball 0 0 5, example_ball 6 0 15]) = \<lparr>x = - (625 / 32), y = 0\<rparr>"
  "velocity (integrate_ball 1 (Suc 0) [example_ball 0 0 5, example_ball 6 0 15]) = \<lparr>x = - (625 / 32), y = 0\<rparr>"
  "position (integrate_ball 1 (Suc 0) [example_ball 0 0 5, example_ball 6 0 15]) = \<lparr>x = - (433 / 32), y = 0\<rparr>"
proof -
  have e: "(example_ball 6 0 15)\<lparr>acceleration := \<lparr>x = 0, y = 0\<rparr>\<rparr> = example_ball 6 0 15"
    by (simp add: example_ball_def)
  have m: "mass (example_ball 6 0 15) = 15" "velocity (example_ball 6 0 15) = \<lparr>x = 0, y = 0\<rparr>"
    "position (example_ball 6 0 15) = \<lparr>x = 6, y = 0\<rparr>"
    by (simp_all add: example_ball_def)
  show "acceleration (integrate_ball 1 (Suc 0) [example_ball 0 0 5, example_ball 6 0 15]) = \<lparr>x = - (625 / 32), y = 0\<rparr>"
    "velocity (integrate_ball 1 (Suc 0) [example_ball 0 0 5, example_ball 6 0 15]) = \<lparr>x = - (625 / 32), y = 0\<rparr>"
    "position (integrate_ball 1 (Suc 0) [example_ball 0 0 5, example_ball 6 0 15]) = \<lparr>x = - (433 / 32), y = 0\<rparr>"
    by (simp_all add: integrate_ball_def Let_def e example_force m Add_def GetSum_def
        KahanVector2Sum_new_def Vector2Add_def Vector2Subtract_def Vector2Scale_def)
qed

section \<open>Collision resolution\<close>

lemma positional_correction_keeps:
  "mass (fst (positional_correction ball1 ball2)) = mass ball1"
  "mass (snd (positional_correction ball1 ball2)) = mass ball2"
  "velocity (fst (positional_correction ball1 ball2)) = velocity ball1"
  "velocity (snd (positional_correction ball1 ball2)) = velocity ball2"
  "radius (fst (positional_correction ball1 ball2)) = radius ball1"
  "radius (snd (positional_correction ball1 ball2)) = radius ball2"
  by (simp_all add: positional_correction_def Let_def)

lemma impulse_response_keeps:
  "position (fst (impulse_response n s ball1 ball2)) = position ball1"
  "position (snd (impulse_response n s ball1 ball2)) = position ball2"
  "mass (fst (impulse_response n s ball1 ball2)) = mass ball1"
  "mass (snd (impulse_response n s ball1 ball2)) = mass ball2"
  "radius (fst (impulse_response n s ball1 ball2)) = radius ball1"
  "radius (snd (impulse_response n s ball1 ball2)) = radius ball2"
  by (simp_all add: impulse_response_def Let_def)

lemma resolve_positions:
  "position (fst (resolveBallCollision ball1 ball2)) = position (fst (positional_correction ball1 ball2))"
  "position (snd (resolveBallCollision ball1 ball2)) = position (snd (positional_correction ball1 ball2))"
  "radius (fst (resolveBallCollision ball1 ball2)) = radius ball1"
  "radius (snd (resolveBallCollision ball1 ball2)) = radius ball2"
  "mass (fst (resolveBallCollision ball1 ball2)) = mass ball1"
  "mass (snd (resolveBallCollision ball1 ball2)) = mass ball2"
  by (simp_all add: resolveBallCollision_def Let_def impulse_response_keeps positional_correction_keeps)

lemma corrected_positions:
  assumes "Vector2Distance (position ball1) (position ball2) < radius ball1 + radius ball2"
  shows "position (fst (positional_correction ball1 ball2)) =
           Vector2Subtract (position ball1)
             (Vector2Scale (collision_normal ball1 ball2)
                (overlap_of ball1 ball2 * (mass ball2 / (mass ball1 + mass ball2))))"
    and "position (snd (positional_correction ball1 ball2)) =
           Vector2Add (position ball2)
             (Vector2Scale (collision_normal ball1 ball2)
                (overlap_of ball1 ball2 * (mass ball1 / (mass ball1 + mass ball2))))"
  using assms by (simp_all add: positional_correction_def Let_def collision_normal_def overlap_of_def)

lemma separation_after:
  fixes L S a b :: real
  assumes ab: "a + b = 1"
  shows "(p2 + d * (1 / L) * ((S - L) * b)) - (p1 - d * (1 / L) * ((S - L) * a)) 
          = (p2 - p1) + d * ((S - L) / L)"
proof -
  have "d * (1 / L) * ((S - L) * b) + d * (1 / L) * ((S - L) * a) = d * (1 / L) * (S - L) * (a + b)"
    by (simp only: distrib_left mult.assoc add.commute)
  also have "\<dots> = d * ((S - L) / L)"
    by (simp add: ab)
  finally show ?thesis by linarith
qed

lemma scale_to_sum:
  fixes L S :: real
  assumes L: "0 < L"
  shows "d + d * ((S - L) / L) = d * (S / L)"
  using L by (simp add: field_simps)

lemma approaching_normal_unit:
  assumes "relative_speed ball1 ball2 < 0"
  shows "Vector2Length (collision_normal ball1 ball2) = 1"
proof (cases "0 < Vector2Length (Vector2Subtract (position ball2) (position ball1))")
  case True
  then show ?thesis by (simp add: collision_normal_def Vector2Normalize_unit)
next
  case False
  then have "collision_normal ball1 ball2 = \<lparr>x = 0, y = 0\<rparr>"
    by (simp add: collision_normal_def Vector2Normalize_zero)
  then have "relative_speed ball1 ball2 = 0"
    by (simp add: relative_speed_def Let_def Vector2DotProduct_def)
  with assms show ?thesis by simp
qed

lemma resolve_velocities:
  "velocity (fst (resolveBallCollision ball1 ball2)) =
     (if relative_speed ball1 ball2 < 0
      then Vector2Add (velocity ball1)
             (Vector2Scale (collision_normal ball1 ball2)
                (2 * relative_speed ball1 ball2 / (mass ball1 + mass ball2) * mass ball2))
      else velocity ball1)"
  "velocity (snd (resolveBallCollision ball1 ball2)) =
     (if relative_speed ball1 ball2 < 0
      then Vector2Subtract (velocity ball2)
             (Vector2Scale (collision_normal ball1 ball2)
                (2 * relative_speed ball1 ball2 / (mass ball1 + mass ball2) * mass ball1))
      else velocity ball2)"
  by (simp_all add: resolveBallCollision_def impulse_response_def Let_def positional_correction_keeps)

lemma shifted_differs:
  assumes "x n * x n + y n * y n = 1" and "k \<noteq> 0"
  shows "Vector2Add v (Vector2Scale n k) \<noteq> v" and "Vector2Subtract v (Vector2Scale n k) \<noteq> v"
proof -
  have nz: "x n \<noteq> 0 \<or> y n \<noteq> 0"
    using assms(1) by auto
  show "Vector2Add v (Vector2Scale n k) \<noteq> v"
  proof
    assume e: "Vector2Add v (Vector2Scale n k) = v"
    have "x (Vector2Add v (Vector2Scale n k)) = x v" "y (Vector2Add v (Vector2Scale n k)) = y v"
      by (simp_all only: e)
    then have "x n * k = 0" "y n * k = 0"
      by (simp_all add: Vector2Add_def Vector2Scale_def)
    with assms(2) nz show False by simp
  qed
  show "Vector2Subtract v (Vector2Scale n k) \<noteq> v"
  proof
    assume e: "Vector2Subtract v (Vector2Scale n k) = v"
    have "x (Vector2Subtract v (Vector2Scale n k)) = x v" "y (Vector2Subtract v (Vector2Scale n k)) = y v"
      by (simp_all only: e)
    then have "x n * k = 0" "y n * k = 0"
      by (simp_all add: Vector2Subtract_def Vector2Scale_def)
    with assms(2) nz show False by simp
  qed
qed

lemma rebound_speed:
  fixes rs m1 m2 :: real
  assumes unit: "nx * nx + ny * ny = 1" and m: "0 < m1 + m2"
    and rs: "rs = (bx - ax) * nx + (by - ay) * ny"
  shows "((bx - nx * (2 * rs / (m1 + m2) * m1)) - (ax + nx * (2 * rs / (m1 + m2) * m2))) * nx
       + ((by - ny * (2 * rs / (m1 + m2) * m1)) - (ay + ny * (2 * rs / (m1 + m2) * m2))) * ny
       = - rs"
proof -
  define i where "i = 2 * rs / (m1 + m2)"
  have "i * m1 + i * m2 = i * (m1 + m2)"
    by (simp only: distrib_left)
  also have "\<dots> = 2 * rs"
    using m by (simp add: i_def)
  finally have i: "i * m1 + i * m2 = 2 * rs" .
  have "((bx - nx * (i * m1)) - (ax + nx * (i * m2))) * nx
       + ((by - ny * (i * m1)) - (ay + ny * (i * m2))) * ny
       = ((bx - ax) * nx + (by - ay) * ny) - (i * m1 + i * m2) * (nx * nx + ny * ny)"
    by (simp add: algebra_simps)
  also have "\<dots> = - rs"
    by (simp add: unit i rs [symmetric])
  finally show ?thesis by (simp add: i_def)
qed

lemma example_normal: "collision_normal (example_ball 0 v m) (example_ball 6 w k) = \<lparr>x = 1, y = 0\<rparr>"
  by (simp add: collision_normal_def example_ball_def Vector2Subtract_def Vector2Normalize_def sqrt_36)

section \<open>The loops of the collision pass\<close>

lemma length_collide_step: "length (collide_step p balls) = length balls"
  by (simp add: collide_step_def length_resolve_at)

lemma handleCollisions_j_fold:
  "handleCollisions_j i j balls = fold collide_step (map (Pair i) [j..<length balls]) balls"
proof (induction i j balls rule: handleCollisions_j.induct)
  case (1 i j balls)
  have cs: "(if checkBallCollision (balls ! i) (balls ! j) then resolve_at i j balls else balls)
              = collide_step (i, j) balls"
    by (simp add: collide_step_def)
  show ?case
  proof (cases "j < length balls")
    case True
    have "handleCollisions_j i j balls = handleCollisions_j i (Suc j) (collide_step (i, j) balls)"
      using True by (subst handleCollisions_j.simps) (simp add: cs)
    also have "\<dots> = fold collide_step
                        (map (Pair i) [Suc j..<length (collide_step (i, j) balls)])
                        (collide_step (i, j) balls)"
      using "1.IH" [OF True] unfolding cs .
    also have "\<dots> = fold collide_step (map (Pair i) [j..<length balls]) balls"
      using True by (simp add: length_collide_step upt_conv_Cons)
    finally show ?thesis .
  next
    case False
    then show ?thesis
      by (subst handleCollisions_j.simps) simp
  qed
qed

lemma pairs_from_step:
  "i < n \<Longrightarrow> pairs_from i n = map (Pair i) [Suc i..<n] @ pairs_from (Suc i) n"
  by (simp add: pairs_from_def upt_conv_Cons)

lemma pairs_from_done: "\<not> i < n \<Longrightarrow> pairs_from i n = []"
  by (simp add: pairs_from_def)

lemma length_fold_collide_step: "length (fold collide_step ps balls) = length balls"
  by (induction ps arbitrary: balls) (simp_all add: length_collide_step)

lemma handleCollisions_i_fold:
  "handleCollisions_i i balls = fold collide_step (pairs_from i (length balls)) balls"
proof (induction i balls rule: handleCollisions_i.induct)
  case (1 i balls)
  show ?case
  proof (cases "i < length balls")
    case True
    define balls1 where "balls1 = handleCollisions_j i (Suc i) balls"
    have len: "length balls1 = length balls"
      by (simp add: balls1_def length_handleCollisions_j)
    have "handleCollisions_i i balls = handleCollisions_i (Suc i) balls1"
      using True by (subst handleCollisions_i.simps) (simp add: balls1_def)
    also have "\<dots> = fold collide_step (pairs_from (Suc i) (length balls1)) balls1"
      using True "1.IH" by (simp add: balls1_def)
    also have "\<dots> = fold collide_step (pairs_from i (length balls)) balls"
      using True by (simp add: len pairs_from_step) (simp add: balls1_def handleCollisions_j_fold)
    finally show ?thesis .
  next
    case False
    then show ?thesis
      by (subst handleCollisions_i.simps) (simp add: pairs_from_done)
  qed
qed

lemma index_pairs_from: "index_pairs n = pairs_from 0 n"
  by (simp add: index_pairs_def pairs_from_def)

lemma handleCollisions_i_pass: "handleCollisions_i 0 balls = collision_pass balls"
  by (simp add: handleCollisions_i_fold collision_pass_def index_pairs_from)

lemma handleCollisions_iteration_funpow:
  "handleCollisions_iteration iteration balls
     = (collision_pass ^^ (maxIterations - iteration)) balls"
proof (induction iteration balls rule: handleCollisions_iteration.induct)
  case (1 iteration balls)
  show ?case
  proof (cases "iteration < maxIterations")
    case True
    then have s: "maxIterations - iteration = Suc (maxIterations - Suc iteration)" by simp
    have "handleCollisions_iteration iteration balls
            = handleCollisions_iteration (Suc iteration) (collision_pass balls)"
      using True by (subst handleCollisions_iteration.simps) (simp add: handleCollisions_i_pass)
    also have "\<dots> = (collision_pass ^^ (maxIterations - Suc iteration)) (collision_pass balls)"
      using True "1.IH" by (simp add: handleCollisions_i_pass)
    also have "\<dots> = (collision_pass ^^ (maxIterations - iteration)) balls"
      unfolding s by (simp add: funpow_swap1)
    finally show ?thesis .
  next
    case False
    then show ?thesis
      by (subst handleCollisions_iteration.simps) simp
  qed
qed

lemma set_pairs_from: "set (pairs_from i n) = {(a, b). i \<le> a \<and> a < b \<and> b < n}"
  by (fastforce simp: pairs_from_def)

lemma distinct_pairs_from: "distinct (pairs_from i n)"
proof (induction "n - i" arbitrary: i)
  case 0
  then show ?case by (simp add: pairs_from_done)
next
  case (Suc k)
  then have i: "i < n" and k: "k = n - Suc i" by simp_all
  have "distinct (map (Pair i) [Suc i..<n])"
    by (simp add: distinct_map inj_on_def)
  moreover have "distinct (pairs_from (Suc i) n)"
    using k by (rule Suc.hyps(1))
  moreover have "set (map (Pair i) [Suc i..<n]) \<inter> set (pairs_from (Suc i) n) = {}"
    by (auto simp: set_pairs_from)
  ultimately show ?case
    by (simp add: pairs_from_step [OF i])
qed

lemma sorted_pairs_from: "sorted_wrt pair_before (pairs_from i n)"
proof (induction "n - i" arbitrary: i)
  case 0
  then show ?case by (simp add: pairs_from_done)
next
  case (Suc k)
  then have i: "i < n" and k: "k = n - Suc i" by simp_all
  have "sorted_wrt pair_before (map (Pair i) [Suc i..<n])"
    by (simp add: sorted_wrt_map pair_before_def sorted_wrt_iff_nth_less)
  moreover have "sorted_wrt pair_before (pairs_from (Suc i) n)"
    using k by (rule Suc.hyps(1))
  moreover have "\<forall>p\<in>set (map (Pair i) [Suc i..<n]). \<forall>q\<in>set (pairs_from (Suc i) n). pair_before p q"
    by (auto simp: set_pairs_from pair_before_def)
  ultimately show ?case
    by (simp add: pairs_from_step [OF i] sorted_wrt_append)
qed

section \<open>The properties\<close>

text \<open>
  C1. While a particle is dragged the flag \<^verbatim>\<open>isDragging\<close> is set, and the update loop tests
  only that flag: it skips the accumulation of gravity and the integration for every
  particle, the dragged one and all the others alike. One run of the loop then applies the
  boundary wrap to each particle and nothing else, so every velocity and every
  acceleration (and every radius and mass) is what it was before the loop.
\<close>

theorem C1_dragging_suspends_every_particle:
  "update_balls True deltaTime 0 balls = map bounds balls
   \<and> map velocity (update_balls True deltaTime 0 balls) = map velocity balls
   \<and> map acceleration (update_balls True deltaTime 0 balls) = map acceleration balls
   \<and> map radius (update_balls True deltaTime 0 balls) = map radius balls
   \<and> map mass (update_balls True deltaTime 0 balls) = map mass balls"
  by (simp add: update_balls_dragging bounds_keeps comp_def)

text \<open>
  Two particles, the first one dragged, one second of elapsed time. The second particle is
  not dragged; integrating it would give it the acceleration and the velocity
  \<open>(- 625 / 32, 0)\<close> towards the first. The loop leaves it as it was.
\<close>

theorem C1_others_not_integrated_counterexample:
  "velocity (update_balls True 1 0 [example_ball 0 0 5, example_ball 6 0 15] ! 1) = \<lparr>x = 0, y = 0\<rparr>
   \<and> acceleration (update_balls True 1 0 [example_ball 0 0 5, example_ball 6 0 15] ! 1) = \<lparr>x = 0, y = 0\<rparr>
   \<and> position (update_balls True 1 0 [example_ball 0 0 5, example_ball 6 0 15] ! 1) = \<lparr>x = 6, y = 0\<rparr>
   \<and> acceleration (integrate_ball 1 1 [example_ball 0 0 5, example_ball 6 0 15]) = \<lparr>x = - (625 / 32), y = 0\<rparr>
   \<and> velocity (integrate_ball 1 1 [example_ball 0 0 5, example_ball 6 0 15]) = \<lparr>x = - (625 / 32), y = 0\<rparr>
   \<and> update_balls True 1 0 [example_ball 0 0 5, example_ball 6 0 15] ! 1
        \<noteq> update_ball False 1 1 [example_ball 0 0 5, example_ball 6 0 15]"
proof -
  have b: "bounds (example_ball 6 0 15) = example_ball 6 0 15"
    by (simp add: bounds_def Let_def example_ball_def screenWidth_def screenHeight_def)
  have u: "update_balls True 1 0 [example_ball 0 0 5, example_ball 6 0 15] ! 1 = example_ball 6 0 15"
    by (simp add: update_balls_dragging b)
  have "velocity (update_ball False 1 1 [example_ball 0 0 5, example_ball 6 0 15]) = \<lparr>x = - (625 / 32), y = 0\<rparr>"
    by (simp add: update_ball_def bounds_keeps example_integrate)
  then have "update_ball False 1 1 [example_ball 0 0 5, example_ball 6 0 15] \<noteq> example_ball 6 0 15"
    by (auto simp: example_ball_def)
  then show ?thesis
    unfolding u by (simp add: example_integrate) (simp add: example_ball_def)
qed

text \<open>
  C2. The acceleration stored for the particle at index \<open>i\<close> is the compensated sum, over
  the indices \<open>j \<noteq> i\<close> in order, of \<open>force(i, j)\<close> scaled by \<open>1 / mass(i)\<close>; in exact arithmetic
  each coordinate is the plain sum over \<open>j \<noteq> i\<close> of the force's coordinate divided by the
  mass. The force is the normalised direction from \<open>i\<close> to \<open>j\<close> scaled by
  \<open>1000 * mass(i) * mass(j) / (|p_j - p_i| + 10)\<^sup>2\<close>, which is its length when the two centres
  differ. The mass of the particle is positive. In a world of one particle the
  acceleration is exactly \<open>(0, 0)\<close>.
\<close>

theorem C2_acceleration_is_sum_over_others:
  assumes i: "i < length balls" and m: "0 < mass (balls ! i)"
  shows "acceleration (integrate_ball deltaTime i balls) =
           kahan_total
             (map (\<lambda>j. Vector2Scale (calculateGravitationalForce (balls ! i) (balls ! j))
                                      (1 / mass (balls ! i)))
                  (filter (\<lambda>j. j \<noteq> i) [0..<length balls]))
       \<and> x (acceleration (integrate_ball deltaTime i balls)) =
           (\<Sum>j\<in>{0..<length balls} - {i}.
              x (calculateGravitationalForce (balls ! i) (balls ! j)) / mass (balls ! i))
       \<and> y (acceleration (integrate_ball deltaTime i balls)) =
           (\<Sum>j\<in>{0..<length balls} - {i}.
              y (calculateGravitationalForce (balls ! i) (balls ! j)) / mass (balls ! i))
       \<and> calculateGravitationalForce (balls ! i) (balls ! j) =
           Vector2Scale
             (Vector2Normalize (Vector2Subtract (position (balls ! j)) (position (balls ! i))))
             (1000 * mass (balls ! i) * mass (balls ! j)
                / (Vector2Length (Vector2Subtract (position (balls ! j)) (position (balls ! i))) + 10)\<^sup>2)
       \<and> (position (balls ! i) \<noteq> position (balls ! j) \<longrightarrow>
            Vector2Length (calculateGravitationalForce (balls ! i) (balls ! j)) =
              \<bar>1000 * mass (balls ! i) * mass (balls ! j)\<bar>
                / (Vector2Length (Vector2Subtract (position (balls ! j)) (position (balls ! i))) + 10)\<^sup>2)
       \<and> acceleration (integrate_ball deltaTime 0 [ball]) = \<lparr>x = 0, y = 0\<rparr>"
proof -
  have d: "distinct (filter (\<lambda>j. j \<noteq> i) [0..<length balls])" by simp
  have single: "acceleration (integrate_ball deltaTime 0 [ball]) = \<lparr>x = 0, y = 0\<rparr>"
    by (simp add: integrate_ball_def Let_def GetSum_def KahanVector2Sum_new_def)
  have sums: "x (acceleration (integrate_ball deltaTime i balls)) =
           (\<Sum>j\<in>{0..<length balls} - {i}.
              x (calculateGravitationalForce (balls ! i) (balls ! j)) / mass (balls ! i))"
      "y (acceleration (integrate_ball deltaTime i balls)) =
           (\<Sum>j\<in>{0..<length balls} - {i}.
              y (calculateGravitationalForce (balls ! i) (balls ! j)) / mass (balls ! i))"
    unfolding integrate_ball_acceleration [OF i] kahan_total_map_sum [OF d] others_set
    by (simp_all add: Vector2Scale_def)
  have mag: "position (balls ! i) \<noteq> position (balls ! j) \<longrightarrow>
            Vector2Length (calculateGravitationalForce (balls ! i) (balls ! j)) =
              \<bar>1000 * mass (balls ! i) * mass (balls ! j)\<bar>
                / (Vector2Length (Vector2Subtract (position (balls ! j)) (position (balls ! i))) + 10)\<^sup>2"
    by (simp add: force_magnitude)
  have acc: "acceleration (integrate_ball deltaTime i balls) =
           kahan_total
             (map (\<lambda>j. Vector2Scale (calculateGravitationalForce (balls ! i) (balls ! j))
                                      (1 / mass (balls ! i)))
                  (filter (\<lambda>j. j \<noteq> i) [0..<length balls]))"
    using i by (rule integrate_ball_acceleration)
  show ?thesis
    by (intro conjI acc sums force_formula mag single)
qed

theorem C2_acceleration_is_sum_over_others_witness:
  "1 < length [example_ball 0 0 5, example_ball 6 0 15]
   \<and> 0 < mass ([example_ball 0 0 5, example_ball 6 0 15] ! 1)
   \<and> acceleration (integrate_ball 1 1 [example_ball 0 0 5, example_ball 6 0 15])
       = Vector2Scale (calculateGravitationalForce (example_ball 6 0 15) (example_ball 0 0 5)) (1 / 15)
   \<and> acceleration (integrate_ball 1 1 [example_ball 0 0 5, example_ball 6 0 15])
       = \<lparr>x = - (625 / 32), y = 0\<rparr>
   \<and> position (example_ball 6 0 15) \<noteq> position (example_ball 0 0 5)
   \<and> Vector2Length (calculateGravitationalForce (example_ball 6 0 15) (example_ball 0 0 5))
       = 9375 / 32"
proof -
  have h: "1 < length [example_ball 0 0 5, example_ball 6 0 15]" by simp
  have m: "mass (example_ball 6 0 15) = 15" by (simp add: example_ball_def)
  have pos: "0 < mass ([example_ball 0 0 5, example_ball 6 0 15] ! 1)"
    by (simp add: example_ball_def)
  have f: "filter (\<lambda>j. j \<noteq> 1) [0..<length [example_ball 0 0 5, example_ball 6 0 15]] = [0]"
    by (simp add: upt_conv_Cons)
  have "acceleration (integrate_ball 1 1 [example_ball 0 0 5, example_ball 6 0 15]) =
          kahan_total
             (map (\<lambda>j. Vector2Scale
                     (calculateGravitationalForce ([example_ball 0 0 5, example_ball 6 0 15] ! 1)
                        ([example_ball 0 0 5, example_ball 6 0 15] ! j))
                     (1 / mass ([example_ball 0 0 5, example_ball 6 0 15] ! 1)))
                  (filter (\<lambda>j. j \<noteq> 1) [0..<length [example_ball 0 0 5, example_ball 6 0 15]]))"
    using C2_acceleration_is_sum_over_others [OF h pos] by (rule conjunct1)
  also have "\<dots> = Vector2Scale (calculateGravitationalForce (example_ball 6 0 15) (example_ball 0 0 5)) (1 / 15)"
    unfolding f
    by (simp add: m kahan_total_def GetSum_def Add_def KahanVector2Sum_new_def
        Vector2Add_def Vector2Subtract_def Vector2Scale_def)
  finally have a: "acceleration (integrate_ball 1 1 [example_ball 0 0 5, example_ball 6 0 15]) =
      Vector2Scale (calculateGravitationalForce (example_ball 6 0 15) (example_ball 0 0 5)) (1 / 15)" .
  have l: "Vector2Length (calculateGravitationalForce (example_ball 6 0 15) (example_ball 0 0 5))
             = 9375 / 32"
    by (simp add: example_force Vector2Length_axis)
  have p: "position (example_ball 6 0 15) \<noteq> position (example_ball 0 0 5)"
    by (simp add: example_ball_def)
  show ?thesis
    unfolding a l using p pos by (simp add: example_force Vector2Scale_def)
qed

text \<open>
  C3. For two colliding particles of positive mass, one call of the collision resolution
  leaves the total momentum \<open>m1 * v1 + m2 * v2\<close> unchanged, in exact arithmetic.
\<close>

theorem C3_momentum_conserved:
  assumes "0 < mass ball1" and "0 < mass ball2" and "checkBallCollision ball1 ball2"
  shows "total_momentum (fst (resolveBallCollision ball1 ball2))
                        (snd (resolveBallCollision ball1 ball2))
         = total_momentum ball1 ball2"
proof (rule Vector2_eqI)
  show "x (total_momentum (fst (resolveBallCollision ball1 ball2))
                        (snd (resolveBallCollision ball1 ball2)))
         = x (total_momentum ball1 ball2)"
    by (simp add: total_momentum_def resolve_velocities resolve_positions
        Vector2Add_def Vector2Subtract_def Vector2Scale_def algebra_simps)
  show "y (total_momentum (fst (resolveBallCollision ball1 ball2))
                        (snd (resolveBallCollision ball1 ball2)))
         = y (total_momentum ball1 ball2)"
    by (simp add: total_momentum_def resolve_velocities resolve_positions
        Vector2Add_def Vector2Subtract_def Vector2Scale_def algebra_simps)
qed

theorem C3_momentum_conserved_witness:
  "(0 < mass (example_ball 0 1 5) \<and> 0 < mass (example_ball 6 (- 1) 15)
      \<and> checkBallCollision (example_ball 0 1 5) (example_ball 6 (- 1) 15))
   \<and> total_momentum (fst (resolveBallCollision (example_ball 0 1 5) (example_ball 6 (- 1) 15)))
                     (snd (resolveBallCollision (example_ball 0 1 5) (example_ball 6 (- 1) 15)))
       = \<lparr>x = - 10, y = 0\<rparr>"
proof -
  have h: "0 < mass (example_ball 0 1 5)" "0 < mass (example_ball 6 (- 1) 15)"
    "checkBallCollision (example_ball 0 1 5) (example_ball 6 (- 1) 15)"
    by (simp_all add: example_ball_def checkBallCollision_def Vector2Distance_def sqrt_36)
  have "total_momentum (example_ball 0 1 5) (example_ball 6 (- 1) 15) = \<lparr>x = - 10, y = 0\<rparr>"
    by (simp add: example_ball_def total_momentum_def Vector2Add_def Vector2Scale_def)
  with C3_momentum_conserved [OF h] h show ?thesis by simp
qed

text \<open>
  C4. On each axis the boundary wrap sends a coordinate strictly above the viewport maximum
  plus the radius to minus the radius, a coordinate strictly below minus the radius to the
  viewport maximum plus the radius, and leaves every coordinate between the two edges,
  the edges themselves included, where it is. The two images are edges, so wrapping a
  second time changes nothing. The viewport is 1600 by 900 and the radius is positive.
\<close>

theorem C4_wrap_strictly_outside:
  assumes r: "0 < radius ball"
  shows "(x (position ball) > real_of_int screenWidth + radius ball \<longrightarrow>
            x (position (bounds ball)) = - radius ball)
       \<and> (x (position ball) < - radius ball \<longrightarrow>
            x (position (bounds ball)) = real_of_int screenWidth + radius ball)
       \<and> (- radius ball \<le> x (position ball) \<and> x (position ball) \<le> real_of_int screenWidth + radius ball \<longrightarrow>
            x (position (bounds ball)) = x (position ball))
       \<and> (y (position ball) > real_of_int screenHeight + radius ball \<longrightarrow>
            y (position (bounds ball)) = - radius ball)
       \<and> (y (position ball) < - radius ball \<longrightarrow>
            y (position (bounds ball)) = real_of_int screenHeight + radius ball)
       \<and> (- radius ball \<le> y (position ball) \<and> y (position ball) \<le> real_of_int screenHeight + radius ball \<longrightarrow>
            y (position (bounds ball)) = y (position ball))
       \<and> bounds (bounds ball) = bounds ball
       \<and> screenWidth = 1600 \<and> screenHeight = 900"
proof -
  have w: "- radius ball \<le> real_of_int screenWidth + radius ball"
    and h: "- radius ball \<le> real_of_int screenHeight + radius ball"
    using r by (simp_all add: screenWidth_def screenHeight_def)
  have xs: "- radius ball \<le> x (position (bounds ball))"
      "x (position (bounds ball)) \<le> real_of_int screenWidth + radius ball"
    using w by (simp_all add: bounds_x)
  have ys: "- radius ball \<le> y (position (bounds ball))"
      "y (position (bounds ball)) \<le> real_of_int screenHeight + radius ball"
    using h by (simp_all add: bounds_y)
  have "position (bounds (bounds ball)) = position (bounds ball)"
  proof (rule Vector2_eqI)
    show "x (position (bounds (bounds ball))) = x (position (bounds ball))"
      using xs by (subst bounds_x) (simp add: bounds_keeps)
    show "y (position (bounds (bounds ball))) = y (position (bounds ball))"
      using ys by (subst bounds_y) (simp add: bounds_keeps)
  qed
  then have idem: "bounds (bounds ball) = bounds ball"
    by (simp add: bounds_keeps Ball.equality)
  show ?thesis
    using w h idem by (simp add: bounds_x bounds_y screenWidth_def screenHeight_def)
qed

theorem C4_wrap_strictly_outside_witness:
  "0 < radius (example_ball 1606 0 5)
   \<and> x (position (example_ball 1606 0 5)) > real_of_int screenWidth + radius (example_ball 1606 0 5)
   \<and> x (position (bounds (example_ball 1606 0 5))) = - 5
   \<and> x (position (example_ball (- 6) 0 5)) < - radius (example_ball (- 6) 0 5)
   \<and> x (position (bounds (example_ball (- 6) 0 5))) = 1605
   \<and> bounds (bounds (example_ball 1606 0 5)) = bounds (example_ball 1606 0 5)"
proof -
  have r: "0 < radius (example_ball 1606 0 5)" "0 < radius (example_ball (- 6) 0 5)"
    by (simp_all add: example_ball_def)
  show ?thesis
    using C4_wrap_strictly_outside [OF r(1)] C4_wrap_strictly_outside [OF r(2)]
    by (simp add: example_ball_def)
qed

text \<open>
  A particle of radius 5 whose \<open>x\<close> is exactly \<open>1600 + 5\<close> is not wrapped: the test is strict.
\<close>

theorem C4_on_the_edge_counterexample:
  "x (position (example_ball 1605 0 5)) = real_of_int screenWidth + radius (example_ball 1605 0 5)
   \<and> x (position (bounds (example_ball 1605 0 5))) = 1605
   \<and> x (position (bounds (example_ball 1605 0 5))) \<noteq> - radius (example_ball 1605 0 5)"
  by (simp add: bounds_x) (simp add: example_ball_def screenWidth_def)

text \<open>
  C5. For two overlapping particles of positive mass whose centres differ, the positional
  correction takes \<open>overlap = (r1 + r2) - distance\<close> and moves the particles apart along the
  unit vector from the first centre to the second: the first by
  \<open>overlap * m2 / (m1 + m2)\<close>, the second by \<open>overlap * m1 / (m1 + m2)\<close>. After the call the
  overlap is exactly 0, strictly less than before, whatever the velocities are.
\<close>

theorem C5_positional_correction_distinct_centres:
  assumes m1: "0 < mass ball1" and m2: "0 < mass ball2"
    and hit: "Vector2Distance (position ball1) (position ball2) < radius ball1 + radius ball2"
    and apart: "position ball1 \<noteq> position ball2"
  shows "overlap_of ball1 ball2 =
           (radius ball1 + radius ball2) - Vector2Distance (position ball1) (position ball2)
         \<and> Vector2Length (collision_normal ball1 ball2) = 1
         \<and> position (fst (resolveBallCollision ball1 ball2)) =
             Vector2Subtract (position ball1)
               (Vector2Scale (collision_normal ball1 ball2)
                  (overlap_of ball1 ball2 * (mass ball2 / (mass ball1 + mass ball2))))
         \<and> position (snd (resolveBallCollision ball1 ball2)) =
             Vector2Add (position ball2)
               (Vector2Scale (collision_normal ball1 ball2)
                  (overlap_of ball1 ball2 * (mass ball1 / (mass ball1 + mass ball2))))
         \<and> Vector2Distance (position ball1) (position (fst (resolveBallCollision ball1 ball2)))
             = overlap_of ball1 ball2 * (mass ball2 / (mass ball1 + mass ball2))
         \<and> Vector2Distance (position ball2) (position (snd (resolveBallCollision ball1 ball2)))
             = overlap_of ball1 ball2 * (mass ball1 / (mass ball1 + mass ball2))
         \<and> overlap_of (fst (resolveBallCollision ball1 ball2)) (snd (resolveBallCollision ball1 ball2)) = 0
         \<and> overlap_of (fst (resolveBallCollision ball1 ball2)) (snd (resolveBallCollision ball1 ball2))
             < overlap_of ball1 ball2"
proof -
  define d where "d = Vector2Subtract (position ball2) (position ball1)"
  define L where "L = Vector2Length d"
  define S where "S = radius ball1 + radius ball2"
  define n where "n = collision_normal ball1 ball2"
  define a where "a = mass ball2 / (mass ball1 + mass ball2)"
  define b where "b = mass ball1 / (mass ball1 + mass ball2)"
  define b1 where "b1 = fst (resolveBallCollision ball1 ball2)"
  define b2 where "b2 = snd (resolveBallCollision ball1 ball2)"
  have dist: "Vector2Distance (position ball1) (position ball2) = L"
    by (simp add: Vector2Distance_Length L_def d_def)
  have L: "0 < L"
    unfolding L_def d_def using apart by (rule distinct_centres_length)
  have SL: "L < S" using hit dist by (simp add: S_def)
  have ov: "overlap_of ball1 ball2 = S - L"
    by (simp add: overlap_of_def S_def L_def d_def)
  have n: "n = Vector2Scale d (1 / L)"
    using L by (simp add: n_def collision_normal_def d_def [symmetric] L_def Vector2Normalize_scale)
  have unit: "Vector2Length n = 1"
    using L by (simp add: n_def collision_normal_def d_def [symmetric] L_def Vector2Normalize_unit)
  have ab: "a + b = 1" and a: "0 < a" and b: "0 < b"
    using m1 m2 by (simp_all add: a_def b_def add_divide_distrib [symmetric])
  have p1: "position b1 = Vector2Subtract (position ball1) (Vector2Scale n ((S - L) * a))"
    using corrected_positions(1) [OF hit]
    by (simp add: b1_def resolve_positions n_def ov a_def)
  have p2: "position b2 = Vector2Add (position ball2) (Vector2Scale n ((S - L) * b))"
    using corrected_positions(2) [OF hit]
    by (simp add: b2_def resolve_positions n_def ov b_def)
  have disp1: "Vector2Distance (position ball1) (position b1) = (S - L) * a"
  proof -
    have "Vector2Subtract (position b1) (position ball1) = Vector2Scale n (- ((S - L) * a))"
      by (simp add: p1 Vector2Subtract_def Vector2Scale_def)
    then have "Vector2Distance (position ball1) (position b1) = \<bar>- ((S - L) * a)\<bar> * Vector2Length n"
      by (simp only: Vector2Distance_Length Vector2Length_scale)
    also have "\<dots> = (S - L) * a"
      using SL a unit by simp
    finally show ?thesis .
  qed
  have disp2: "Vector2Distance (position ball2) (position b2) = (S - L) * b"
  proof -
    have "Vector2Subtract (position b2) (position ball2) = Vector2Scale n ((S - L) * b)"
      by (simp add: p2 Vector2Subtract_def Vector2Add_def Vector2Scale_def)
    then have "Vector2Distance (position ball2) (position b2) = \<bar>(S - L) * b\<bar> * Vector2Length n"
      by (simp only: Vector2Distance_Length Vector2Length_scale)
    also have "\<dots> = (S - L) * b"
      using SL b unit by simp
    finally show ?thesis .
  qed
  have xd: "x d = x (position ball2) - x (position ball1)"
    and yd: "y d = y (position ball2) - y (position ball1)"
    by (simp_all add: d_def Vector2Subtract_def)
  have diff: "Vector2Subtract (position b2) (position b1) = Vector2Scale d (S / L)"
  proof (rule Vector2_eqI)
    have "x (Vector2Subtract (position b2) (position b1)) =
            (x (position ball2) + x d * (1 / L) * ((S - L) * b))
              - (x (position ball1) - x d * (1 / L) * ((S - L) * a))"
      by (simp add: p1 p2 n Vector2Subtract_def Vector2Add_def Vector2Scale_def)
    also have "\<dots> = (x (position ball2) - x (position ball1)) + x d * ((S - L) / L)"
      using ab by (rule separation_after)
    also have "\<dots> = x d * (S / L)"
      unfolding xd [symmetric] using L by (rule scale_to_sum)
    finally show "x (Vector2Subtract (position b2) (position b1)) = x (Vector2Scale d (S / L))"
      by (simp add: Vector2Scale_def)
  next
    have "y (Vector2Subtract (position b2) (position b1)) =
            (y (position ball2) + y d * (1 / L) * ((S - L) * b))
              - (y (position ball1) - y d * (1 / L) * ((S - L) * a))"
      by (simp add: p1 p2 n Vector2Subtract_def Vector2Add_def Vector2Scale_def)
    also have "\<dots> = (y (position ball2) - y (position ball1)) + y d * ((S - L) / L)"
      using ab by (rule separation_after)
    also have "\<dots> = y d * (S / L)"
      unfolding yd [symmetric] using L by (rule scale_to_sum)
    finally show "y (Vector2Subtract (position b2) (position b1)) = y (Vector2Scale d (S / L))"
      by (simp add: Vector2Scale_def)
  qed
  have "Vector2Length (Vector2Subtract (position b2) (position b1)) = \<bar>S / L\<bar> * L"
    by (simp only: diff Vector2Length_scale L_def)
  also have "\<dots> = S" using L SL by simp
  finally have after: "overlap_of b1 b2 = 0"
    by (simp add: overlap_of_def b1_def b2_def resolve_positions S_def)
  have rad: "overlap_of ball1 ball2 = (radius ball1 + radius ball2) - Vector2Distance (position ball1) (position ball2)"
    by (simp add: ov dist S_def)
  show ?thesis
    using rad unit p1 p2 disp1 disp2 after SL
    unfolding ov n_def [symmetric] b1_def [symmetric] b2_def [symmetric] a_def [symmetric] b_def [symmetric]
    by simp
qed

theorem C5_positional_correction_distinct_centres_witness:
  "(0 < mass (example_ball 0 0 5) \<and> 0 < mass (example_ball 6 0 15)
     \<and> Vector2Distance (position (example_ball 0 0 5)) (position (example_ball 6 0 15))
         < radius (example_ball 0 0 5) + radius (example_ball 6 0 15)
     \<and> position (example_ball 0 0 5) \<noteq> position (example_ball 6 0 15))
   \<and> overlap_of (example_ball 0 0 5) (example_ball 6 0 15) = 4
   \<and> position (fst (resolveBallCollision (example_ball 0 0 5) (example_ball 6 0 15)))
        = \<lparr>x = - 3, y = 0\<rparr>
   \<and> position (snd (resolveBallCollision (example_ball 0 0 5) (example_ball 6 0 15)))
        = \<lparr>x = 7, y = 0\<rparr>
   \<and> overlap_of (fst (resolveBallCollision (example_ball 0 0 5) (example_ball 6 0 15)))
                 (snd (resolveBallCollision (example_ball 0 0 5) (example_ball 6 0 15))) = 0"
proof -
  have h: "0 < mass (example_ball 0 0 5)" "0 < mass (example_ball 6 0 15)"
     "Vector2Distance (position (example_ball 0 0 5)) (position (example_ball 6 0 15))
         < radius (example_ball 0 0 5) + radius (example_ball 6 0 15)"
     "position (example_ball 0 0 5) \<noteq> position (example_ball 6 0 15)"
    by (simp_all add: example_ball_def Vector2Distance_def sqrt_36)
  have ov: "overlap_of (example_ball 0 0 5) (example_ball 6 0 15) = 4"
    by (simp add: overlap_of_def example_ball_def Vector2Subtract_def Vector2Length_def sqrt_36)
  show ?thesis
    using C5_positional_correction_distinct_centres [OF h] h
    by (simp add: ov example_normal Vector2Add_def Vector2Subtract_def Vector2Scale_def)
      (simp add: example_ball_def)
qed

text \<open>
  Two particles of radius 5 at the same point overlap by 10. The normalised direction is
  the zero vector, so the call moves neither particle and the overlap stays 10.
\<close>

theorem C5_coincident_centres_counterexample:
  "0 < mass (example_ball 0 0 5) \<and> 0 < mass (example_ball 0 0 15)
   \<and> Vector2Distance (position (example_ball 0 0 5)) (position (example_ball 0 0 15))
        < radius (example_ball 0 0 5) + radius (example_ball 0 0 15)
   \<and> overlap_of (example_ball 0 0 5) (example_ball 0 0 15) = 10
   \<and> resolveBallCollision (example_ball 0 0 5) (example_ball 0 0 15)
        = (example_ball 0 0 5, example_ball 0 0 15)
   \<and> Vector2Distance (position (example_ball 0 0 5))
        (position (fst (resolveBallCollision (example_ball 0 0 5) (example_ball 0 0 15))))
       \<noteq> overlap_of (example_ball 0 0 5) (example_ball 0 0 15)
            * (mass (example_ball 0 0 15) / (mass (example_ball 0 0 5) + mass (example_ball 0 0 15)))
   \<and> \<not> overlap_of (fst (resolveBallCollision (example_ball 0 0 5) (example_ball 0 0 15)))
                   (snd (resolveBallCollision (example_ball 0 0 5) (example_ball 0 0 15)))
        < overlap_of (example_ball 0 0 5) (example_ball 0 0 15)"
proof -
  have r: "resolveBallCollision (example_ball 0 0 5) (example_ball 0 0 15)
        = (example_ball 0 0 5, example_ball 0 0 15)"
    by (simp add: resolveBallCollision_def positional_correction_def impulse_response_def
        relative_speed_def collision_normal_def Vector2Normalize_def Vector2Subtract_def
        Vector2Add_def Vector2Scale_def Vector2DotProduct_def Vector2Distance_def
        Vector2Length_def example_ball_def Let_def)
  have ov: "overlap_of (example_ball 0 0 5) (example_ball 0 0 15) = 10"
    by (simp add: overlap_of_def example_ball_def Vector2Subtract_def Vector2Length_def)
  show ?thesis
    unfolding r fst_conv snd_conv ov
    by (simp add: example_ball_def Vector2Distance_def)
qed

lemma relative_speed_projection:
  "relative_speed ball1 ball2 =
     Vector2DotProduct (Vector2Subtract (velocity ball2) (velocity ball1))
       (Vector2Normalize (Vector2Subtract (position ball2) (position ball1)))"
  by (simp add: relative_speed_def collision_normal_def Let_def)

lemma impulse_by_relative_speed:
  assumes m1: "0 < mass ball1" and m2: "0 < mass ball2"
  shows "(relative_speed ball1 ball2 < 0 \<longrightarrow>
            velocity (fst (resolveBallCollision ball1 ball2)) =
              Vector2Add (velocity ball1)
                (Vector2Scale (collision_normal ball1 ball2)
                   (2 * relative_speed ball1 ball2 / (mass ball1 + mass ball2) * mass ball2))
          \<and> velocity (snd (resolveBallCollision ball1 ball2)) =
              Vector2Subtract (velocity ball2)
                (Vector2Scale (collision_normal ball1 ball2)
                   (2 * relative_speed ball1 ball2 / (mass ball1 + mass ball2) * mass ball1))
          \<and> velocity (fst (resolveBallCollision ball1 ball2)) \<noteq> velocity ball1
          \<and> velocity (snd (resolveBallCollision ball1 ball2)) \<noteq> velocity ball2
          \<and> Vector2DotProduct
                (Vector2Subtract (velocity (snd (resolveBallCollision ball1 ball2)))
                                 (velocity (fst (resolveBallCollision ball1 ball2))))
                (collision_normal ball1 ball2)
              = - relative_speed ball1 ball2)
       \<and> (\<not> relative_speed ball1 ball2 < 0 \<longrightarrow>
            velocity (fst (resolveBallCollision ball1 ball2)) = velocity ball1
          \<and> velocity (snd (resolveBallCollision ball1 ball2)) = velocity ball2)"
proof (cases "relative_speed ball1 ball2 < 0")
  case False
  then show ?thesis by (simp add: resolve_velocities)
next
  case True
  define n where "n = collision_normal ball1 ball2"
  define rs where "rs = relative_speed ball1 ball2"
  define i where "i = 2 * rs / (mass ball1 + mass ball2)"
  have unit: "x n * x n + y n * y n = 1"
    using approaching_normal_unit [OF True] by (simp add: n_def unit_dot_self)
  have i: "i < 0"
    using True m1 m2 by (simp add: i_def rs_def divide_neg_pos)
  have k1: "i * mass ball2 \<noteq> 0" and k2: "i * mass ball1 \<noteq> 0"
    using i m1 m2 by simp_all
  have v1: "velocity (fst (resolveBallCollision ball1 ball2)) =
              Vector2Add (velocity ball1) (Vector2Scale n (i * mass ball2))"
    and v2: "velocity (snd (resolveBallCollision ball1 ball2)) =
              Vector2Subtract (velocity ball2) (Vector2Scale n (i * mass ball1))"
    using True by (simp_all add: resolve_velocities n_def i_def rs_def)
  have ne1: "velocity (fst (resolveBallCollision ball1 ball2)) \<noteq> velocity ball1"
    unfolding v1 using unit k1 by (rule shifted_differs(1))
  have ne2: "velocity (snd (resolveBallCollision ball1 ball2)) \<noteq> velocity ball2"
    unfolding v2 using unit k2 by (rule shifted_differs(2))
  have rs: "rs = (x (velocity ball2) - x (velocity ball1)) * x n
              + (y (velocity ball2) - y (velocity ball1)) * y n"
    by (simp add: rs_def relative_speed_def Let_def Vector2DotProduct_def Vector2Subtract_def n_def)
  have m: "0 < mass ball1 + mass ball2" using m1 m2 by simp
  have apart: "Vector2DotProduct
                (Vector2Subtract (velocity (snd (resolveBallCollision ball1 ball2)))
                                 (velocity (fst (resolveBallCollision ball1 ball2)))) n = - rs"
    unfolding v1 v2 i_def
    using rebound_speed [OF unit m rs]
    by (simp add: Vector2DotProduct_def Vector2Subtract_def Vector2Add_def Vector2Scale_def)
  show ?thesis
    using True v1 v2 ne1 ne2 apart
    unfolding n_def rs_def i_def by simp
qed

text \<open>
  C6. For two particles of positive mass, the resolver changes the velocities exactly when
  the particles approach: when the relative velocity \<open>v2 - v1\<close> projected on the collision
  normal, the normalised vector from the first centre to the second, is negative. Then,
  with \<open>impulse = 2 * projection / (m1 + m2)\<close>, the first velocity gains
  \<open>normal * (impulse * m2)\<close> and the second loses \<open>normal * (impulse * m1)\<close>; both change, and
  the projection of the new relative velocity is the opposite of what it was, so the
  particles separate. Otherwise both velocities are left as they are.
\<close>

theorem C6_impulse_iff_approaching:
  assumes m1: "0 < mass ball1" and m2: "0 < mass ball2"
  shows "(Vector2DotProduct (Vector2Subtract (velocity ball2) (velocity ball1))
            (Vector2Normalize (Vector2Subtract (position ball2) (position ball1))) < 0 \<longrightarrow>
            velocity (fst (resolveBallCollision ball1 ball2)) =
              Vector2Add (velocity ball1)
                (Vector2Scale (Vector2Normalize (Vector2Subtract (position ball2) (position ball1)))
                   (2 * Vector2DotProduct (Vector2Subtract (velocity ball2) (velocity ball1))
                          (Vector2Normalize (Vector2Subtract (position ball2) (position ball1)))
                      / (mass ball1 + mass ball2) * mass ball2))
          \<and> velocity (snd (resolveBallCollision ball1 ball2)) =
              Vector2Subtract (velocity ball2)
                (Vector2Scale (Vector2Normalize (Vector2Subtract (position ball2) (position ball1)))
                   (2 * Vector2DotProduct (Vector2Subtract (velocity ball2) (velocity ball1))
                          (Vector2Normalize (Vector2Subtract (position ball2) (position ball1)))
                      / (mass ball1 + mass ball2) * mass ball1))
          \<and> velocity (fst (resolveBallCollision ball1 ball2)) \<noteq> velocity ball1
          \<and> velocity (snd (resolveBallCollision ball1 ball2)) \<noteq> velocity ball2
          \<and> Vector2DotProduct
                (Vector2Subtract (velocity (snd (resolveBallCollision ball1 ball2)))
                                 (velocity (fst (resolveBallCollision ball1 ball2))))
                (Vector2Normalize (Vector2Subtract (position ball2) (position ball1)))
              = - Vector2DotProduct (Vector2Subtract (velocity ball2) (velocity ball1))
                    (Vector2Normalize (Vector2Subtract (position ball2) (position ball1))))
       \<and> (\<not> Vector2DotProduct (Vector2Subtract (velocity ball2) (velocity ball1))
              (Vector2Normalize (Vector2Subtract (position ball2) (position ball1))) < 0 \<longrightarrow>
            velocity (fst (resolveBallCollision ball1 ball2)) = velocity ball1
          \<and> velocity (snd (resolveBallCollision ball1 ball2)) = velocity ball2)
       \<and> ((velocity (fst (resolveBallCollision ball1 ball2)) \<noteq> velocity ball1
            \<or> velocity (snd (resolveBallCollision ball1 ball2)) \<noteq> velocity ball2)
           \<longleftrightarrow>
           Vector2DotProduct (Vector2Subtract (velocity ball2) (velocity ball1))
             (Vector2Normalize (Vector2Subtract (position ball2) (position ball1))) < 0)"
proof -
  define p where "p = Vector2DotProduct (Vector2Subtract (velocity ball2) (velocity ball1))
             (Vector2Normalize (Vector2Subtract (position ball2) (position ball1)))"
  have rs: "relative_speed ball1 ball2 = p"
    by (simp add: p_def relative_speed_projection)
  have n: "collision_normal ball1 ball2
             = Vector2Normalize (Vector2Subtract (position ball2) (position ball1))"
    by (simp add: collision_normal_def)
  note h = impulse_by_relative_speed [OF m1 m2, unfolded rs n]
  from h have hit: "p < 0 \<longrightarrow>
       velocity (fst (resolveBallCollision ball1 ball2)) \<noteq> velocity ball1
     \<and> velocity (snd (resolveBallCollision ball1 ball2)) \<noteq> velocity ball2"
    by blast
  from h have miss: "\<not> p < 0 \<longrightarrow>
       velocity (fst (resolveBallCollision ball1 ball2)) = velocity ball1
     \<and> velocity (snd (resolveBallCollision ball1 ball2)) = velocity ball2"
    by blast
  from hit miss have iff: "(velocity (fst (resolveBallCollision ball1 ball2)) \<noteq> velocity ball1
            \<or> velocity (snd (resolveBallCollision ball1 ball2)) \<noteq> velocity ball2)
           \<longleftrightarrow> p < 0"
    by blast
  from h iff show ?thesis
    unfolding p_def by (intro conjI) blast+
qed

theorem C6_impulse_iff_approaching_witness:
  "(0 < mass (example_ball 0 1 5) \<and> 0 < mass (example_ball 6 (- 1) 15)
      \<and> Vector2DotProduct
           (Vector2Subtract (velocity (example_ball 6 (- 1) 15)) (velocity (example_ball 0 1 5)))
           (Vector2Normalize
              (Vector2Subtract (position (example_ball 6 (- 1) 15)) (position (example_ball 0 1 5))))
          = - 2)
   \<and> velocity (fst (resolveBallCollision (example_ball 0 1 5) (example_ball 6 (- 1) 15)))
       = \<lparr>x = - 2, y = 0\<rparr>
   \<and> velocity (snd (resolveBallCollision (example_ball 0 1 5) (example_ball 6 (- 1) 15)))
       = \<lparr>x = 0, y = 0\<rparr>
   \<and> (0 < mass (example_ball 0 (- 1) 5)
      \<and> Vector2DotProduct
           (Vector2Subtract (velocity (example_ball 6 (- 1) 15)) (velocity (example_ball 0 (- 1) 5)))
           (Vector2Normalize
              (Vector2Subtract (position (example_ball 6 (- 1) 15)) (position (example_ball 0 (- 1) 5))))
          = 0)
   \<and> velocity (fst (resolveBallCollision (example_ball 0 (- 1) 5) (example_ball 6 (- 1) 15)))
       = \<lparr>x = - 1, y = 0\<rparr>
   \<and> velocity (snd (resolveBallCollision (example_ball 0 (- 1) 5) (example_ball 6 (- 1) 15)))
       = \<lparr>x = - 1, y = 0\<rparr>"
proof -
  have m: "0 < mass (example_ball 0 1 5)" "0 < mass (example_ball 6 (- 1) 15)"
    "0 < mass (example_ball 0 (- 1) 5)"
    by (simp_all add: example_ball_def)
  have n: "Vector2Normalize
             (Vector2Subtract (position (example_ball 6 w k)) (position (example_ball 0 v l)))
           = \<lparr>x = 1, y = 0\<rparr>" for v w k l
    using example_normal [of v l w k] by (simp add: collision_normal_def)
  have p: "Vector2DotProduct
           (Vector2Subtract (velocity (example_ball 6 (- 1) 15)) (velocity (example_ball 0 1 5)))
           \<lparr>x = 1, y = 0\<rparr> = - 2"
    "Vector2DotProduct
           (Vector2Subtract (velocity (example_ball 6 (- 1) 15)) (velocity (example_ball 0 (- 1) 5)))
           \<lparr>x = 1, y = 0\<rparr> = 0"
    by (simp_all add: Vector2DotProduct_def Vector2Subtract_def example_ball_def)
  show ?thesis
    using C6_impulse_iff_approaching [OF m(1) m(2)] C6_impulse_iff_approaching [OF m(3) m(2)] m
    unfolding n p
    by (simp add: Vector2Add_def Vector2Subtract_def Vector2Scale_def) (simp add: example_ball_def)
qed

text \<open>
  C7. The accumulator starts with \<open>sum\<close> and \<open>c\<close> both zero. Adding a term \<open>val\<close> performs
  exactly \<open>y = val - c\<close>, \<open>t = sum + y\<close>, \<open>c = (t - sum) - y\<close>, \<open>sum = t\<close>, and the result
  read back is \<open>sum\<close>. Over exact arithmetic the result of adding a sequence of terms is
  their plain sum, coordinate by coordinate.
\<close>

theorem C7_kahan_updates_and_exact_sum:
  "sum_k KahanVector2Sum_new = \<lparr>x = 0, y = 0\<rparr> \<and> c_k KahanVector2Sum_new = \<lparr>x = 0, y = 0\<rparr>
   \<and> sum_k (Add k val) = Vector2Add (sum_k k) (Vector2Subtract val (c_k k))
   \<and> c_k (Add k val) =
       Vector2Subtract
         (Vector2Subtract (Vector2Add (sum_k k) (Vector2Subtract val (c_k k))) (sum_k k))
         (Vector2Subtract val (c_k k))
   \<and> GetSum k = sum_k k
   \<and> x (GetSum (foldl Add KahanVector2Sum_new vs)) = (\<Sum>v\<leftarrow>vs. x v)
   \<and> y (GetSum (foldl Add KahanVector2Sum_new vs)) = (\<Sum>v\<leftarrow>vs. y v)"
  using kahan_total_exact [of vs]
  by (simp add: Add_def Let_def GetSum_def KahanVector2Sum_new_def kahan_total_def)

text \<open>
  C8. Two particles collide exactly when the Euclidean distance of their centres is less
  than the sum of their radii. \<^verbatim>\<open>handleCollisions\<close> is ten passes, with no other stopping
  test; one pass goes through the pairs of indices \<open>i < j\<close>, each once, ordered by \<open>i\<close> and
  then by \<open>j\<close>, and resolves the pair when the two particles, as they are at that moment,
  collide. The number of particles does not change.
\<close>

theorem C8_collision_test_and_passes:
  "(checkBallCollision ball1 ball2 \<longleftrightarrow>
      sqrt ((x (position ball1) - x (position ball2))\<^sup>2
            + (y (position ball1) - y (position ball2))\<^sup>2)
        < radius ball1 + radius ball2)
   \<and> handleCollisions balls = (collision_pass ^^ 10) balls
   \<and> collision_pass balls = fold collide_step (index_pairs (length balls)) balls
   \<and> collide_step (i, j) balls =
       (if checkBallCollision (balls ! i) (balls ! j)
        then (balls[i := fst (resolveBallCollision (balls ! i) (balls ! j))])
                   [j := snd (resolveBallCollision (balls ! i) (balls ! j))]
        else balls)
   \<and> set (index_pairs n) = {(a, b). a < b \<and> b < n}
   \<and> distinct (index_pairs n)
   \<and> sorted_wrt pair_before (index_pairs n)
   \<and> length (handleCollisions balls) = length balls"
proof -
  have h: "handleCollisions balls = (collision_pass ^^ 10) balls"
    by (simp add: handleCollisions_def handleCollisions_iteration_funpow maxIterations_def)
  have len: "length ((collision_pass ^^ k) balls) = length balls" for k
    by (induction k) (simp_all add: collision_pass_def length_fold_collide_step)
  have c: "checkBallCollision ball1 ball2 \<longleftrightarrow>
      sqrt ((x (position ball1) - x (position ball2))\<^sup>2
            + (y (position ball1) - y (position ball2))\<^sup>2)
        < radius ball1 + radius ball2"
    by (simp add: checkBallCollision_def Vector2Distance_def power2_eq_square)
  have s: "collide_step (i, j) balls =
       (if checkBallCollision (balls ! i) (balls ! j)
        then (balls[i := fst (resolveBallCollision (balls ! i) (balls ! j))])
                   [j := snd (resolveBallCollision (balls ! i) (balls ! j))]
        else balls)"
    by (simp add: collide_step_def resolve_at_def Let_def)
  have p: "set (index_pairs n) = {(a, b). a < b \<and> b < n}"
    "distinct (index_pairs n)" "sorted_wrt pair_before (index_pairs n)"
    by (simp_all add: index_pairs_from set_pairs_from distinct_pairs_from sorted_pairs_from)
  have l: "length (handleCollisions balls) = length balls"
    unfolding h by (rule len)
  from c h s p l show ?thesis
    by (simp only: collision_pass_def simp_thms)
qed

text \<open>
  C9. The divisor of the force magnitude is never zero: the softening constant 10 is
  added to the nonnegative centre distance before squaring, so the divisor is at least
  100, for every pair of particles.
\<close>

theorem C9_force_divisor_at_least_100:
  "minDistanceThreshold = 10
   \<and> softened_distance source target \<ge> 10
   \<and> force_divisor source target \<ge> 100
   \<and> force_divisor source target \<noteq> 0"
proof -
  have d: "softened_distance source target \<ge> 10"
    using Vector2Length_nonneg [of "Vector2Subtract (position target) (position source)"]
    by (simp add: softened_distance_def minDistanceThreshold_def)
  then have "10 * 10 \<le> softened_distance source target * softened_distance source target"
    by (intro mult_mono) simp_all
  then have "force_divisor source target \<ge> 100"
    by (simp add: force_divisor_def)
  with d show ?thesis
    by (simp add: minDistanceThreshold_def)
qed

end
